theory Spec2Isabelle
  imports Main
begin

section \<open>Strings and values of the host language\<close>

text \<open>
  A JavaScript string is modelled as a \<open>string\<close>; a character stands for a UTF-16 code
  unit below 256 (the Latin-1 range), which covers extension identifiers, commands and
  paths. A value that may be \<open>undefined\<close> is an \<open>option\<close>, with \<open>None\<close> for
  \<open>undefined\<close>.
\<close>

definition dq :: string where
  "dq = [CHR 0x22]"

definition nl :: string where
  "nl = [CHR 0x0A]"

text \<open>\<open>!v\<close> is false exactly for a non-empty string.\<close>

definition truthy :: "string option \<Rightarrow> bool" where
  "truthy v = (case v of None \<Rightarrow> False | Some s \<Rightarrow> s \<noteq> [])"

text \<open>Interpolation \<open>${v}\<close> in a template literal.\<close>

definition tpl :: "string option \<Rightarrow> string" where
  "tpl v = (case v of None \<Rightarrow> ''undefined'' | Some s \<Rightarrow> s)"

text \<open>\<open>String.prototype.toLowerCase\<close> on code units below 256.\<close>

definition lowerChar :: "char \<Rightarrow> char" where
  "lowerChar c =
     (let n = (of_char c :: nat)
      in if (65 \<le> n \<and> n \<le> 90) \<or> (192 \<le> n \<and> n \<le> 222 \<and> n \<noteq> 215)
         then char_of (n + 32) else c)"

definition toLowerCase :: "string \<Rightarrow> string" where
  "toLowerCase s = map lowerChar s"

text \<open>\<open>String.prototype.trim\<close>: white space and line terminators below 256.\<close>

definition isSpace :: "char \<Rightarrow> bool" where
  "isSpace c = ((of_char c :: nat) \<in> {9, 10, 11, 12, 13, 32, 160})"

definition trim :: "string \<Rightarrow> string" where
  "trim s = rev (dropWhile isSpace (rev (dropWhile isSpace s)))"

text \<open>The decimal text of a number, as \<open>${n}\<close> prints it.\<close>

fun decimal :: "nat \<Rightarrow> string" where
  "decimal n =
     (if n < 10 then [char_of (48 + n)]
      else decimal (n div 10) @ [char_of (48 + n mod 10)])"

declare decimal.simps [simp del]

section \<open>The host: operating system, editor and marketplace\<close>

text \<open>The result of a child process: its exit code and what it wrote.\<close>

record proc_result =
  p_code :: int
  p_stdout :: string
  p_stderr :: string

text \<open>What the editor shows or runs (\<open>vscode.window\<close>, \<open>vscode.commands\<close>).\<close>

datatype ui_event =
    ShowInformationMessage string "string list"
  | ShowErrorMessage string
  | WithProgress string
  | ProgressReport string
  | ExecuteCommand string

text \<open>
  Console output. Only the text of the first argument is kept; an error object passed
  as a second argument is not rendered.
\<close>

datatype console_line = ConsoleLog string | ConsoleWarn string | ConsoleError string

text \<open>The marketplace response, every property possibly missing.\<close>

record asset_file =
  assetType :: "string option"
  source :: "string option"

record version =
  v_files :: "asset_file list option"

record publisher =
  pub_displayName :: "string option"
  pub_publisherName :: "string option"

record gallery_ext =
  ext_displayName :: "string option"
  ext_publisher :: "publisher option"
  ext_shortDescription :: "string option"
  ext_extensionName :: "string option"
  ext_versions :: "version list option"

record result_set =
  extensions :: "gallery_ext list option"

record query_response =
  results :: "result_set list option"

text \<open>The body and headers of the one request \<open>searchMarketplace\<close> sends.\<close>

record request =
  url :: string
  filterType :: nat
  criteria_value :: string
  pageNumber :: nat
  pageSize :: nat
  flags :: nat
  headers :: "(string \<times> string) list"

text \<open>
  How \<open>axios.post\<close> ends: a 2xx response with its \<open>data\<close>, a response with another
  status (\<open>error.response\<close> is set), no response (\<open>error.request\<close> is set), or an
  error before the request was sent.
\<close>

datatype http_outcome =
    Http2xx "query_response option"
  | HttpStatus nat
  | NoResponse
  | RequestSetupError

text \<open>
  A request on the wire: the POST that \<open>axios.post\<close> sends, or the request the client
  sends to a location it is redirected to.
\<close>

datatype wire_request = Post request | Follow string

datatype js_error = AxiosResponseError nat | AxiosRequestError | AxiosOtherError | TypeError

text \<open>
  Everything the extension asks of its surroundings. \<open>spawn\<close> runs a shell command,
  given the commands run so far and the files present, and gives the child's result and
  the files present afterwards; \<open>pick\<close> is the user's answer to a notification with
  buttons; \<open>post\<close> is what happens to one \<open>axios.post\<close> call: the locations of
  the redirects the client follows, and how the call ends; \<open>installed\<close> are the ids
  of \<open>vscode.extensions.all\<close>.
\<close>

record host =
  platform :: string
  path_join :: "string list \<Rightarrow> string"
  spawn :: "string list \<Rightarrow> string set \<Rightarrow> string \<Rightarrow> proc_result \<times> string set"
  pick :: "string \<Rightarrow> string list \<Rightarrow> string option"
  post :: "request \<Rightarrow> string list \<times> http_outcome"
  installed :: "string list"

text \<open>The display-ready summary of one search result.\<close>

record summary =
  displayName :: "string option"
  publisherDisplayName :: "string option"
  shortDescription :: "string option"
  extensionId :: string
  iconUrl :: string
  isInstalled :: bool

datatype ui_msg = SetLoading | ShowResults "summary list" | ShowError string | ShowInfo string

text \<open>
  The observable state: files present, child processes run, requests on the wire, editor
  events, messages posted to the webview and console lines, each oldest first.
\<close>

record world =
  disk :: "string set"
  procs :: "string list"
  requests :: "wire_request list"
  ui :: "ui_event list"
  posted :: "ui_msg list"
  console :: "console_line list"

definition say :: "ui_event \<Rightarrow> world \<Rightarrow> world" where
  "say e w = w\<lparr>ui := ui w @ [e]\<rparr>"

definition clog :: "console_line \<Rightarrow> world \<Rightarrow> world" where
  "clog l w = w\<lparr>console := console w @ [l]\<rparr>"

definition postMessage :: "ui_msg \<Rightarrow> world \<Rightarrow> world" where
  "postMessage m w = w\<lparr>posted := posted w @ [m]\<rparr>"

section \<open>extension.js: the command runner and the install orchestrator\<close>

text \<open>
  \<open>child_process.exec\<close> as \<open>execPromise\<close> calls it, with the default options: the
  output is read as UTF-8 and each stream may hold up to \<open>maxBuffer\<close> bytes. A
  \<open>proc_result\<close> is what the child did: its exit code (a child ended by a signal counts
  as a code other than 0) and the text it wrote to each stream.
\<close>

definition maxBuffer :: nat where
  "maxBuffer = 1024 * 1024"

text \<open>The UTF-8 length of a text of code units below 256: two bytes from 128 on.\<close>

definition byteLength :: "string \<Rightarrow> nat" where
  "byteLength s = length s + length (filter (\<lambda>c. 128 \<le> (of_char c :: nat)) s)"

text \<open>
  The part of a stream that \<open>exec\<close> hands to its callback: all of it within the limit,
  and otherwise what fits into the limit (exact for ASCII output; the cut of other
  output depends on how the host delivers it).
\<close>

fun takeBytes :: "nat \<Rightarrow> string \<Rightarrow> string" where
  "takeBytes n [] = []"
| "takeBytes n (c # cs) =
     (let k = (if 128 \<le> (of_char c :: nat) then 2 else 1)
      in if k \<le> n then c # takeBytes (n - k) cs else [])"

definition collected :: "string \<Rightarrow> string" where
  "collected s = (if byteLength s \<le> maxBuffer then s else takeBytes maxBuffer s)"

text \<open>
  The error \<open>exec\<close> calls back with, by its message: a stream exceeded the limit (when
  both do, the one read first is reported; the model reports the output stream), or
  the child did not exit with code 0; \<open>None\<close> when there is no error.
\<close>

definition exec_error :: "string \<Rightarrow> proc_result \<Rightarrow> string option" where
  "exec_error command r =
     (if maxBuffer < byteLength (p_stdout r) then Some ''stdout maxBuffer length exceeded''
      else if maxBuffer < byteLength (p_stderr r) then Some ''stderr maxBuffer length exceeded''
      else if p_code r \<noteq> 0 then Some (''Command failed: '' @ command @ nl @ p_stderr r)
      else None)"

text \<open>
  \<open>execPromise\<close>: rejects with the error, its message extended by a line break and the
  diagnostic stream, or resolves with both streams.
\<close>

definition execPromise :: "host \<Rightarrow> string \<Rightarrow> world \<Rightarrow> (string + string \<times> string) \<times> world" where
  "execPromise h command w =
     (let (r, d) = spawn h (procs w) (disk w) command;
          w' = w\<lparr>procs := procs w @ [command], disk := d\<rparr>
      in case exec_error command r of
           None \<Rightarrow> (Inr (collected (p_stdout r), collected (p_stderr r)), w')
         | Some message \<Rightarrow> (Inl (message @ nl @ collected (p_stderr r)), w'))"

text \<open>
  On a host other than Windows \<open>exec\<close> hands the command to \<open>/bin/sh -c\<close>. \<open>shWords\<close>
  reads a small part of the shell language: words separated by blanks, each either a
  run of letters, digits and \<open>- . _ /\<close>, or one double-quoted text without \<open>" \ $ `\<close>.
  The result is the argument vector the shell builds, the program first; a command
  outside this part is not read (\<open>None\<close>), and neither is any command on Windows.
\<close>

definition shSafe :: "char \<Rightarrow> bool" where
  "shSafe c =
     (let n = (of_char c :: nat)
      in (97 \<le> n \<and> n \<le> 122) \<or> (65 \<le> n \<and> n \<le> 90) \<or> (48 \<le> n \<and> n \<le> 57) \<or>
         n = 45 \<or> n = 46 \<or> n = 47 \<or> n = 95)"





definition installExtension :: "host \<Rightarrow> string option \<Rightarrow> string option \<Rightarrow> world \<Rightarrow> world" where
  "installExtension h extId installerCmd w =
     (if \<not> truthy extId \<or> \<not> truthy installerCmd then
        say (ShowErrorMessage
          ''Installation failed: Missing extension ID or installer command path.'') w
      else
        let w1 = say (WithProgress (''Installing '' @ dq @ tpl extId @ dq @ ''...'')) w;
            command = dq @ tpl installerCmd @ dq @ '' '' @ tpl extId;
            w2 = clog (ConsoleLog (''Executing installation command: '' @ command)) w1
        in case execPromise h command w2 of
             (Inr (out, err), w3) \<Rightarrow>
               let w4 = (if err \<noteq> [] then
                           clog (ConsoleWarn (''Installation produced warnings/errors: '' @ err)) w3
                         else w3);
                   w5 = clog (ConsoleLog (''Installation stdout: '' @ out)) w4;
                   msg = ''Successfully installed '' @ dq @ tpl extId @ dq @
                         ''! Please reload your Codium window to activate the extension.'';
                   w6 = say (ShowInformationMessage msg [''Reload Window'']) w5
               in if pick h msg [''Reload Window''] = Some ''Reload Window''
                  then say (ExecuteCommand ''workbench.action.reloadWindow'') w6
                  else w6
           | (Inl message, w3) \<Rightarrow>
               say (ShowErrorMessage
                     (''Installation Failed for '' @ dq @ tpl extId @ dq @ '': '' @ message))
                 (clog (ConsoleError (''Error during installation of '' @ tpl extId @ '':'')) w3))"

section \<open>extension.js: the runtime locator and the dependency provisioner\<close>

definition getPythonCommand :: "host \<Rightarrow> string \<Rightarrow> string" where
  "getPythonCommand h venvPath =
     (if platform h = ''win32'' then path_join h [venvPath, ''Scripts'', ''python.exe'']
      else path_join h [venvPath, ''bin'', ''python''])"

definition getInstallerCommand :: "host \<Rightarrow> string \<Rightarrow> string" where
  "getInstallerCommand h venvPath =
     (if platform h = ''win32'' then path_join h [venvPath, ''Scripts'', ''vsix-to-vscodium.exe'']
      else path_join h [venvPath, ''bin'', ''vsix-to-vscodium''])"

text \<open>A settled promise: rejected with an error message, or fulfilled.\<close>

type_synonym 'a promise = "string + 'a"

definition pythonNotFound :: string where
  "pythonNotFound =
     ''Python is not installed or not in your PATH. Please install Python to use this extension.''"

definition findPython :: "host \<Rightarrow> world \<Rightarrow> string promise \<times> world" where
  "findPython h w =
     (case execPromise h ''python3 --version'' w of
        (Inr _, w1) \<Rightarrow> (Inr ''python3'', w1)
      | (Inl _, w1) \<Rightarrow>
          (case execPromise h ''python --version'' w1 of
             (Inr _, w2) \<Rightarrow> (Inr ''python'', w2)
           | (Inl _, w2) \<Rightarrow>
               (Inl pythonNotFound, w2)))"

definition setupFailed :: "string \<Rightarrow> world \<Rightarrow> string promise \<times> world" where
  "setupFailed message w =
     (Inl message, say (ShowErrorMessage (''Failed to set up Python dependencies: '' @ message)) w)"

text \<open>
  \<open>ensureDependencies\<close> of extension.js. \<open>fs.existsSync\<close> is membership in the files
  present. The asynchronous steps are run to completion, in the order the awaits give.
\<close>

definition ensureDependencies :: "host \<Rightarrow> string \<Rightarrow> world \<Rightarrow> string promise \<times> world" where
  "ensureDependencies h storagePath w =
     (let venvPath = path_join h [storagePath, ''.venv''];
          installerPath = getInstallerCommand h venvPath
      in if installerPath \<in> disk w then
           (Inr installerPath, clog (ConsoleLog ''vsix-to-vscodium already installed.'') w)
         else
           case findPython h (say (WithProgress ''Setting up Marketplace Installer dependencies...'') w) of
             (Inl message, w1) \<Rightarrow> setupFailed message w1
           | (Inr pythonCmd, w1) \<Rightarrow>
               (case execPromise h (pythonCmd @ '' -m venv '' @ dq @ venvPath @ dq)
                       (say (ProgressReport ''Creating Python virtual environment...'') w1) of
                  (Inl message, w2) \<Rightarrow> setupFailed message w2
                | (Inr _, w2) \<Rightarrow>
                    (case execPromise h
                            (dq @ getPythonCommand h venvPath @ dq @ '' -m pip install vsix-to-vscodium'')
                            (say (ProgressReport ''Installing vsix-to-vscodium tool...'') w2) of
                       (Inl message, w3) \<Rightarrow> setupFailed message w3
                     | (Inr _, w3) \<Rightarrow>
                         (Inr installerPath,
                          say (ShowInformationMessage
                                 ''Marketplace Installer setup complete! You can now search and install extensions.''
                                 []) w3))))"

section \<open>extension.js: activation and the command-palette command\<close>

text \<open>
  The view provider's fields: whether \<open>_view\<close> is set, and the setup promise it was
  constructed with.
\<close>

record provider =
  view_set :: bool
  installerCmdPromise :: "string promise"

text \<open>What \<open>activate\<close> leaves in scope of the registered command.\<close>

record extension =
  dependencySetupPromise :: "string promise"
  view_provider :: provider

text \<open>
  \<open>activate\<close>. The setup it starts is run to completion before the commands below are
  invoked, so the promise it stores is settled.
\<close>

definition activate :: "host \<Rightarrow> string \<Rightarrow> world \<Rightarrow> extension \<times> world" where
  "activate h storagePath w =
     (let w0 = clog (ConsoleLog ''Marketplace Installer extension is activating...'') w;
          w1 = (if storagePath \<notin> disk w0 then
                  clog (ConsoleLog (''Created storage directory: '' @ storagePath))
                    (w0\<lparr>disk := insert storagePath (disk w0)\<rparr>)
                else w0);
          (p, w2) = ensureDependencies h storagePath w1;
          w3 = clog (ConsoleLog ''MarketplaceViewProvider registered.'') w2;
          w4 = clog (ConsoleLog (''Command '' @ dq @ ''marketplace-installer.installFromInput'' @ dq @
                 '' registered.'')) w3
      in (\<lparr>dependencySetupPromise = p,
           view_provider = \<lparr>view_set = False, installerCmdPromise = p\<rparr>\<rparr>, w4))"

text \<open>
  \<open>vscode.window.showInputBox\<close>: the user's successive attempts to close the box, each
  a text accepted with Enter or \<open>None\<close> for Escape. With a \<open>validateInput\<close>, a text for
  which it returns a message is not accepted and the box stays open; when the attempts
  run out the box is dismissed. The result is the accepted text, or \<open>undefined\<close>.
\<close>

fun showInputBox :: "(string \<Rightarrow> string option) option \<Rightarrow> string option list \<Rightarrow> string option" where
  "showInputBox validate [] = None"
| "showInputBox validate (None # rest) = None"
| "showInputBox validate (Some text # rest) =
     (case validate of
        None \<Rightarrow> Some text
      | Some v \<Rightarrow> (if v text = None then Some text else showInputBox validate rest))"

text \<open>The handler of the command \<open>marketplace-installer.installFromInput\<close>.\<close>

definition installFromInput :: "host \<Rightarrow> extension \<Rightarrow> string option list \<Rightarrow> world \<Rightarrow> world" where
  "installFromInput h ext attempts w =
     (case dependencySetupPromise ext of
        Inl message \<Rightarrow>
          clog (ConsoleError ''Error from installFromInput command:'')
            (say (ShowErrorMessage (''Could not run installer: '' @ message)) w)
      | Inr installerCmd \<Rightarrow>
          (let extId = showInputBox None attempts
           in if truthy extId then installExtension h extId (Some installerCmd) w else w))"

section \<open>MarketplaceViewProvider.js: the marketplace client\<close>

definition searchRequest :: "string \<Rightarrow> request" where
  "searchRequest query =
     \<lparr>url = ''https://marketplace.visualstudio.com/_apis/public/gallery/extensionquery'',
      filterType = 10, criteria_value = query, pageNumber = 1, pageSize = 50, flags = 71,
      headers = [(''Content-Type'', ''application/json''),
                 (''Accept'', ''application/json;api-version=6.0-preview.1''),
                 (''User-Agent'', ''VSCode Marketplace'')]\<rparr>"

text \<open>
  \<open>response.data.results[0].extensions\<close>, and the read of its \<open>length\<close>: reading a
  property of \<open>undefined\<close> throws a TypeError.
\<close>

definition firstExtensions :: "query_response option \<Rightarrow> js_error + gallery_ext list" where
  "firstExtensions d =
     (case d of
        None \<Rightarrow> Inl TypeError
      | Some r \<Rightarrow>
          (case results r of
             None \<Rightarrow> Inl TypeError
           | Some [] \<Rightarrow> Inl TypeError
           | Some (x # _) \<Rightarrow>
               (case extensions x of None \<Rightarrow> Inl TypeError | Some es \<Rightarrow> Inr es)))"

definition defaultIcon :: string where
  "defaultIcon = ''Microsoft.VisualStudio.Services.Icons.Default''"

text \<open>
  \<open>ext.versions[0]?.files?.find(f => f.assetType === defaultIcon)?.source || ''\<close>:
  indexing a missing \<open>versions\<close> throws; each \<open>?.\<close> gives \<open>undefined\<close>, which
  \<open>||\<close> turns into the empty string, as it does an empty \<open>source\<close>.
\<close>

definition iconUrlOf :: "gallery_ext \<Rightarrow> js_error + string" where
  "iconUrlOf ext =
     (case ext_versions ext of
        None \<Rightarrow> Inl TypeError
      | Some [] \<Rightarrow> Inr []
      | Some (v # _) \<Rightarrow>
          (case v_files v of
             None \<Rightarrow> Inr []
           | Some fs \<Rightarrow>
               (case find (\<lambda>f. assetType f = Some defaultIcon) fs of
                  None \<Rightarrow> Inr []
                | Some f \<Rightarrow> (case source f of None \<Rightarrow> Inr [] | Some s \<Rightarrow> Inr s))))"

text \<open>
  The callback of \<open>results.map\<close>: one summary, or the TypeError of reading a property
  of a missing \<open>publisher\<close> or \<open>versions\<close>. \<open>installedExtensions\<close> are the lower-cased
  installed ids.
\<close>

definition formatExtension :: "string list \<Rightarrow> gallery_ext \<Rightarrow> js_error + summary" where
  "formatExtension installedExtensions ext =
     (case ext_publisher ext of
        None \<Rightarrow> Inl TypeError
      | Some pub \<Rightarrow>
          (let fullId = tpl (pub_publisherName pub) @ ''.'' @ tpl (ext_extensionName ext)
           in case iconUrlOf ext of
                Inl e \<Rightarrow> Inl e
              | Inr icon \<Rightarrow>
                  Inr \<lparr>displayName = ext_displayName ext,
                       publisherDisplayName = pub_displayName pub,
                       shortDescription = ext_shortDescription ext,
                       extensionId = fullId,
                       iconUrl = icon,
                       isInstalled = (toLowerCase fullId \<in> set installedExtensions)\<rparr>))"

text \<open>\<open>Array.prototype.map\<close> with a callback that may throw: the first throw ends it.\<close>

fun mapE :: "('a \<Rightarrow> 'e + 'b) \<Rightarrow> 'a list \<Rightarrow> 'e + 'b list" where
  "mapE f [] = Inr []"
| "mapE f (x # xs) =
     (case f x of
        Inl e \<Rightarrow> Inl e
      | Inr y \<Rightarrow> (case mapE f xs of Inl e \<Rightarrow> Inl e | Inr ys \<Rightarrow> Inr (y # ys)))"




text \<open>\<open>axios.post\<close>: the response's \<open>data\<close>, or the error thrown.\<close>

definition axiosResult :: "http_outcome \<Rightarrow> js_error + query_response option" where
  "axiosResult r =
     (case r of
        Http2xx d \<Rightarrow> Inr d
      | HttpStatus st \<Rightarrow> Inl (AxiosResponseError st)
      | NoResponse \<Rightarrow> Inl AxiosRequestError
      | RequestSetupError \<Rightarrow> Inl AxiosOtherError)"

text \<open>
  The requests one \<open>axios.post\<close> call puts on the wire: none when it fails before
  sending, else the POST and one request per redirect followed.
\<close>

definition wireOf :: "request \<Rightarrow> string list \<times> http_outcome \<Rightarrow> wire_request list" where
  "wireOf req x =
     (case snd x of
        RequestSetupError \<Rightarrow> []
      | _ \<Rightarrow> Post req # map Follow (fst x))"

definition axiosPost :: "host \<Rightarrow> request \<Rightarrow> world \<Rightarrow> (js_error + query_response option) \<times> world" where
  "axiosPost h req w =
     (axiosResult (snd (post h req)), w\<lparr>requests := requests w @ wireOf req (post h req)\<rparr>)"

text \<open>
  The try block of \<open>searchMarketplace\<close>, for a query that is a non-empty string: the
  summaries posted, or the error thrown.
\<close>

definition searchAttempt :: "host \<Rightarrow> string \<Rightarrow> world \<Rightarrow> (js_error + summary list) \<times> world" where
  "searchAttempt h query w =
     (case axiosPost h (searchRequest query) w of
        (Inl e, w2) \<Rightarrow> (Inl e, w2)
      | (Inr d, w2) \<Rightarrow>
          (case firstExtensions d of
             Inl e \<Rightarrow> (Inl e, w2)
           | Inr exts \<Rightarrow>
               (let w3 = clog (ConsoleLog (''MarketplaceViewProvider: Found '' @
                                 decimal (length exts) @ '' extensions.'')) w2
                in case mapE (formatExtension (map toLowerCase (installed h))) exts of
                     Inl e \<Rightarrow> (Inl e, w3)
                   | Inr formattedExtensions \<Rightarrow>
                       (Inr formattedExtensions,
                        postMessage (ShowResults formattedExtensions) w3))))"


section \<open>media/main.js: the search box of the webview\<close>

text \<open>The messages the webview sends to the extension host.\<close>

datatype host_msg = Search string | Install string

text \<open>
  The webview: the markup of the results container, the messages sent with
  \<open>vscode.postMessage\<close>, and its console.
\<close>

record webview =
  resultsHtml :: string
  sent :: "host_msg list"
  wv_console :: "string list"

definition performSearch :: "string \<Rightarrow> webview \<Rightarrow> webview" where
  "performSearch inputValue wv =
     (let query = trim inputValue
      in if query \<noteq> [] then
           wv\<lparr>sent := sent wv @ [Search query],
              wv_console := wv_console wv @
                [''Webview: Search button clicked. Sending '' @ dq @ ''search'' @ dq @
                 '' message to extension.'']\<rparr>
         else
           wv\<lparr>resultsHtml := ''<p id='' @ dq @ ''info-message'' @ dq @
                               ''>Please enter a search term.</p>'',
              wv_console := wv_console wv @ [''Webview: Search input is empty.'']\<rparr>)"

section \<open>The earlier extension.js: validated input, retry after a failed setup\<close>

text \<open>
  The repository holds an earlier extension.js whose command
  \<open>marketplace-installer.installExtension\<close> validates the typed identifier and starts
  the setup again when the first one failed. Its definitions carry the suffix \<open>_v0\<close>.
\<close>

text \<open>
  The character class \<open>[a-z0-9-]\<close> under the flag \<open>i\<close>: a letter of either case, a
  digit or a hyphen.
\<close>

definition idChar :: "char \<Rightarrow> bool" where
  "idChar c =
     (let n = (of_char c :: nat)
      in (97 \<le> n \<and> n \<le> 122) \<or> (65 \<le> n \<and> n \<le> 90) \<or> (48 \<le> n \<and> n \<le> 57) \<or> n = 45)"

text \<open>
  \<open>/^[a-z0-9-]+\.[a-z0-9-]+$/i.test(text)\<close>: the longest run of class characters, not
  empty, then a dot, then class characters only, not empty, up to the end. The dot is
  not in the class, so the first run cannot end anywhere else.
\<close>

definition matchesIdPattern :: "string \<Rightarrow> bool" where
  "matchesIdPattern text =
     (takeWhile idChar text \<noteq> [] \<and>
      (case dropWhile idChar text of
         [] \<Rightarrow> False
       | c # rest \<Rightarrow> c = CHR ''.'' \<and> rest \<noteq> [] \<and> list_all idChar rest))"

definition validateInput :: "string \<Rightarrow> string option" where
  "validateInput text =
     (if matchesIdPattern text then None
      else Some (''Invalid format. Use '' @ dq @ ''publisher.extension-name'' @ dq @ ''.''))"

definition ensureDependencies_v0 :: "host \<Rightarrow> string \<Rightarrow> world \<Rightarrow> string promise \<times> world" where
  "ensureDependencies_v0 h storagePath w =
     (let venvPath = path_join h [storagePath, ''.venv''];
          installerPath = getInstallerCommand h venvPath
      in if installerPath \<in> disk w then
           (Inr installerPath, clog (ConsoleLog ''Dependencies are already installed.'') w)
         else
           case findPython h
                  (say (WithProgress ''Setting up Python environment for Marketplace Installer...'') w) of
             (Inl message, w1) \<Rightarrow> setupFailed message w1
           | (Inr pythonCmd, w1) \<Rightarrow>
               (case execPromise h (pythonCmd @ '' -m venv '' @ venvPath)
                       (say (ProgressReport ''Creating virtual environment...'') w1) of
                  (Inl message, w2) \<Rightarrow> setupFailed message w2
                | (Inr _, w2) \<Rightarrow>
                    (case execPromise h
                            (dq @ getPythonCommand h venvPath @ dq @ '' -m pip install vsix-to-vscodium'')
                            (say (ProgressReport ''Installing vsix-to-vscodium...'') w2) of
                       (Inl message, w3) \<Rightarrow> setupFailed message w3
                     | (Inr _, w3) \<Rightarrow>
                         (Inr installerPath,
                          say (ShowInformationMessage ''Marketplace Installer setup complete!'' []) w3))))"

text \<open>
  \<open>activate\<close> of the earlier file: the variable \<open>dependencySetupPromise\<close> after the setup
  has settled; the \<open>catch\<close> handler has set it to \<open>null\<close> (\<open>None\<close>) when the setup failed.
\<close>

definition activate_v0 :: "host \<Rightarrow> string \<Rightarrow> world \<Rightarrow> string promise option \<times> world" where
  "activate_v0 h storagePath w =
     (let w1 = (if storagePath \<notin> disk w then w\<lparr>disk := insert storagePath (disk w)\<rparr> else w)
      in case ensureDependencies_v0 h storagePath w1 of
           (Inl message, w2) \<Rightarrow> (None, clog (ConsoleError ''Initial dependency check failed.'') w2)
         | (Inr installerPath, w2) \<Rightarrow> (Some (Inr installerPath), w2))"

text \<open>
  The handler of the command \<open>marketplace-installer.installExtension\<close>: the variable
  \<open>dependencySetupPromise\<close> before and after, and the world.
\<close>

definition installExtensionCommand_v0 ::
  "host \<Rightarrow> string \<Rightarrow> string option list \<Rightarrow> string promise option \<Rightarrow> world \<Rightarrow>
   string promise option \<times> world" where
  "installExtensionCommand_v0 h storagePath attempts setup w =
     (case (case setup of
              None \<Rightarrow> ensureDependencies_v0 h storagePath w
            | Some p \<Rightarrow> (p, w)) of
        (Inl message, w1) \<Rightarrow>
          (Some (Inl message), say (ShowErrorMessage (''Could not run installer: '' @ message)) w1)
      | (Inr installerCmd, w1) \<Rightarrow>
          (Some (Inr installerCmd),
           let extId = showInputBox (Some validateInput) attempts
           in if \<not> truthy extId then
                say (ShowInformationMessage ''Installation cancelled.'' []) w1
              else
                case execPromise h (dq @ installerCmd @ dq @ '' '' @ tpl extId)
                       (say (WithProgress (''Installing '' @ dq @ tpl extId @ dq @ ''...'')) w1) of
                  (Inr (out, err), w2) \<Rightarrow>
                    (let w3 = (if err \<noteq> [] then
                                 clog (ConsoleWarn (''Installation produced warnings: '' @ err)) w2
                               else w2);
                         w4 = clog (ConsoleLog (''stdout: '' @ out)) w3;
                         msg = ''Successfully installed '' @ dq @ tpl extId @ dq @
                               ''! Please reload to activate.'';
                         w5 = say (ShowInformationMessage msg [''Reload Window'']) w4
                     in if pick h msg [''Reload Window''] = Some ''Reload Window''
                        then say (ExecuteCommand ''workbench.action.reloadWindow'') w5
                        else w5)
                | (Inl message, w2) \<Rightarrow>
                    say (ShowErrorMessage (''Installation Failed: '' @ message)) w2))"

section \<open>Concrete hosts and worlds for evaluation\<close>

text \<open>
  \<open>path.join\<close> on a POSIX host: the non-empty segments joined by a slash, repeated
  slashes reduced to one, and a dot for an empty result. Segments \<open>.\<close> and \<open>..\<close> are
  not resolved.
\<close>

fun squeeze :: "string \<Rightarrow> string" where
  "squeeze (a # b # cs) =
     (if a = CHR ''/'' \<and> b = CHR ''/'' then squeeze (b # cs) else a # squeeze (b # cs))"
| "squeeze cs = cs"

definition posix_join :: "string list \<Rightarrow> string" where
  "posix_join parts =
     (let joined = squeeze (foldr (\<lambda>a b. if b = [] then a else a @ ''/'' @ b)
                              (filter (\<lambda>a. a \<noteq> []) parts) [])
      in if joined = [] then ''.'' else joined)"

definition empty_world :: world where
  "empty_world = \<lparr>disk = {}, procs = [], requests = [], ui = [], posted = [], console = []\<rparr>"

text \<open>
  A Linux host on which every command exits with the given code and writes the given
  diagnostic text, leaving the files as they are; the user dismisses every notification,
  the marketplace gives the given answer, and the given extensions are installed.
\<close>

definition linux_host :: "int \<Rightarrow> string \<Rightarrow> http_outcome \<Rightarrow> string list \<Rightarrow> host" where
  "linux_host code diag answer ids =
     \<lparr>platform = ''linux'', path_join = posix_join,
      spawn = (\<lambda>history files command. (\<lparr>p_code = code, p_stdout = [], p_stderr = diag\<rparr>, files)),
      pick = (\<lambda>message buttons. None),
      post = (\<lambda>req. ([], answer)),
      installed = ids\<rparr>"

text \<open>
  A Linux host on which the first two commands fail (no Python is found) and every later
  command succeeds: Python has been installed in between.
\<close>

definition late_python_host :: host where
  "late_python_host =
     \<lparr>platform = ''linux'', path_join = posix_join,
      spawn = (\<lambda>history files command.
                 (\<lparr>p_code = (if length history < 2 then 127 else 0), p_stdout = [], p_stderr = []\<rparr>,
                  files)),
      pick = (\<lambda>message buttons. None),
      post = (\<lambda>req. ([], NoResponse)),
      installed = []\<rparr>"

text \<open>
  A marketplace entry whose first version lists a manifest and two default icons, and
  the summary it maps to when \<open>ms-python.python\<close> is installed.
\<close>

definition python_ext :: gallery_ext where
  "python_ext =
     \<lparr>ext_displayName = Some ''Python'',
      ext_publisher = Some \<lparr>pub_displayName = Some ''Microsoft'',
                             pub_publisherName = Some ''MS-Python''\<rparr>,
      ext_shortDescription = Some ''Python language support'',
      ext_extensionName = Some ''Python'',
      ext_versions = Some [\<lparr>v_files = Some
         [\<lparr>assetType = Some ''Microsoft.VisualStudio.Code.Manifest'',
           source = Some ''https://cdn/manifest''\<rparr>,
          \<lparr>assetType = Some ''Microsoft.VisualStudio.Services.Icons.Default'',
           source = Some ''https://cdn/icon.png''\<rparr>,
          \<lparr>assetType = Some ''Microsoft.VisualStudio.Services.Icons.Default'',
           source = Some ''https://cdn/other.png''\<rparr>]\<rparr>]\<rparr>"

definition python_summary :: summary where
  "python_summary =
     \<lparr>displayName = Some ''Python'', publisherDisplayName = Some ''Microsoft'',
      shortDescription = Some ''Python language support'', extensionId = ''MS-Python.Python'',
      iconUrl = ''https://cdn/icon.png'', isInstalled = True\<rparr>"

definition python_response :: http_outcome where
  "python_response = Http2xx (Some \<lparr>results = Some [\<lparr>extensions = Some [python_ext]\<rparr>]\<rparr>)"


definition closed_view :: provider where
  "closed_view = \<lparr>view_set = False, installerCmdPromise = Inr ''/s/.venv/bin/vsix-to-vscodium''\<rparr>"







section \<open>Frame lemmas\<close>

lemma say_frame [simp]:
  "procs (say e w) = procs w" "disk (say e w) = disk w" "ui (say e w) = ui w @ [e]"
  "console (say e w) = console w" "posted (say e w) = posted w" "requests (say e w) = requests w"
  by (simp_all add: say_def)

lemma clog_frame [simp]:
  "procs (clog l w) = procs w" "disk (clog l w) = disk w" "ui (clog l w) = ui w"
  "console (clog l w) = console w @ [l]" "posted (clog l w) = posted w"
  "requests (clog l w) = requests w"
  by (simp_all add: clog_def)

lemma postMessage_frame [simp]:
  "procs (postMessage m w) = procs w" "disk (postMessage m w) = disk w"
  "ui (postMessage m w) = ui w" "console (postMessage m w) = console w"
  "posted (postMessage m w) = posted w @ [m]" "requests (postMessage m w) = requests w"
  by (simp_all add: postMessage_def)

lemma execPromise_frame:
  "procs (snd (execPromise h c w)) = procs w @ [c]"
  "ui (snd (execPromise h c w)) = ui w"
  "console (snd (execPromise h c w)) = console w"
  "posted (snd (execPromise h c w)) = posted w"
  "requests (snd (execPromise h c w)) = requests w"
  by (simp_all add: execPromise_def Let_def split: prod.splits option.splits)

section \<open>The command runner\<close>

lemma byteLength_Nil [simp]: "byteLength [] = 0"
  by (simp add: byteLength_def)


lemma collected_Nil [simp]: "collected [] = []"
  by (simp add: collected_def)





subsection \<open>Reading a quoted program and one word\<close>




section \<open>The install orchestrator\<close>

text \<open>
  Claim C7: when the extension id is empty or missing, or the installer handle is not
  resolved, \<open>installExtension\<close> only shows the precondition error: the world is the one
  before with that one error message added, so no child process is run and nothing
  else changes.
\<close>

theorem installExtension_precondition:
  assumes "\<not> truthy extId \<or> \<not> truthy installerCmd"
  shows "installExtension h extId installerCmd w =
           w\<lparr>ui := ui w @ [ShowErrorMessage
             ''Installation failed: Missing extension ID or installer command path.'']\<rparr> \<and>
         procs (installExtension h extId installerCmd w) = procs w"
  using assms by (auto simp: installExtension_def say_def)

theorem installExtension_precondition_witness:
  "\<not> truthy (Some []) \<and> \<not> truthy None \<and>
   installExtension (linux_host 0 [] NoResponse []) (Some [])
       (Some ''/s/.venv/bin/vsix-to-vscodium'') empty_world =
     empty_world\<lparr>ui := [ShowErrorMessage
       ''Installation failed: Missing extension ID or installer command path.'']\<rparr> \<and>
   procs (installExtension (linux_host 0 [] NoResponse []) None None empty_world) = []"
  using installExtension_precondition [of "Some []" "Some ''/s/.venv/bin/vsix-to-vscodium''"
          "linux_host 0 [] NoResponse []" empty_world]
        installExtension_precondition [of None None "linux_host 0 [] NoResponse []" empty_world]
  by (simp add: truthy_def empty_world_def)




section \<open>The dependency provisioner\<close>

text \<open>
  Claim C2: when the installer binary exists at its path under the storage root,
  \<open>ensureDependencies\<close> returns that path and changes nothing but the console, to which
  it adds one line: no child process, no file, no notification. A second call right after
  it returns the same path and again runs no child process.
\<close>

theorem ensureDependencies_idempotent:
  fixes h :: host and w :: world and storagePath :: string
  defines "installerPath \<equiv> getInstallerCommand h (path_join h [storagePath, ''.venv''])"
  defines "line \<equiv> ConsoleLog ''vsix-to-vscodium already installed.''"
  assumes "installerPath \<in> disk w"
  shows "ensureDependencies h storagePath w =
           (Inr installerPath, w\<lparr>console := console w @ [line]\<rparr>) \<and>
         (case ensureDependencies h storagePath w of
            (r1, w1) \<Rightarrow>
              (case ensureDependencies h storagePath w1 of
                 (r2, w2) \<Rightarrow>
                   r2 = r1 \<and> procs w2 = procs w1 \<and> disk w2 = disk w1 \<and> ui w2 = ui w1 \<and>
                   requests w2 = requests w1 \<and> posted w2 = posted w1 \<and>
                   console w2 = console w1 @ [line]))"
  using assms(3) unfolding installerPath_def line_def
  by (simp add: ensureDependencies_def Let_def clog_def)

theorem ensureDependencies_idempotent_witness:
  "''/s/.venv/bin/vsix-to-vscodium'' \<in>
     disk (empty_world\<lparr>disk := {''/s'', ''/s/.venv/bin/vsix-to-vscodium''}\<rparr>) \<and>
   ensureDependencies (linux_host 1 [] NoResponse []) ''/s''
      (empty_world\<lparr>disk := {''/s'', ''/s/.venv/bin/vsix-to-vscodium''}\<rparr>) =
     (Inr ''/s/.venv/bin/vsix-to-vscodium'',
      empty_world\<lparr>disk := {''/s'', ''/s/.venv/bin/vsix-to-vscodium''},
                   console := [ConsoleLog ''vsix-to-vscodium already installed.'']\<rparr>)"
  using ensureDependencies_idempotent [of "linux_host 1 [] NoResponse []" "''/s''"
          "empty_world\<lparr>disk := {''/s'', ''/s/.venv/bin/vsix-to-vscodium''}\<rparr>"]
  by (simp add: empty_world_def linux_host_def getInstallerCommand_def posix_join_def)

section \<open>The search box of the webview\<close>

text \<open>
  Claim C8: when the trimmed input is empty, \<open>performSearch\<close> sets the results container
  to the info message \<open>Please enter a search term.\<close> and sends no message to the
  extension host; besides that it only writes a console line.
\<close>

theorem performSearch_empty:
  assumes "trim inputValue = []"
  shows "performSearch inputValue wv =
           wv\<lparr>resultsHtml := ''<p id='' @ dq @ ''info-message'' @ dq @
                               ''>Please enter a search term.</p>'',
              wv_console := wv_console wv @ [''Webview: Search input is empty.'']\<rparr> \<and>
         sent (performSearch inputValue wv) = sent wv"
  using assms by (simp add: performSearch_def)

theorem performSearch_empty_witness:
  "trim ''   '' = [] \<and>
   performSearch ''   ''
       \<lparr>resultsHtml = ''<p>Loading...</p>'', sent = [Search ''python''], wv_console = []\<rparr> =
     \<lparr>resultsHtml = ''<p id='' @ dq @ ''info-message'' @ dq @ ''>Please enter a search term.</p>'',
      sent = [Search ''python''], wv_console = [''Webview: Search input is empty.'']\<rparr>"
  using performSearch_empty [of "''   ''"
          "\<lparr>resultsHtml = ''<p>Loading...</p>'', sent = [Search ''python''], wv_console = []\<rparr>"]
  by (simp add: trim_def isSpace_def)

section \<open>The marketplace client\<close>

subsection \<open>Mapping with a callback that may throw\<close>

lemma mapE_Inr_iff: "mapE f xs = Inr ys \<longleftrightarrow> list_all2 (\<lambda>x y. f x = Inr y) xs ys"
proof (induction xs arbitrary: ys)
  case Nil
  then show ?case by auto
next
  case (Cons x xs)
  show ?case
  proof (cases "f x")
    case (Inl e)
    then show ?thesis by (auto simp: list_all2_Cons1)
  next
    case (Inr y)
    then show ?thesis using Cons.IH
      by (cases "mapE f xs") (auto simp: list_all2_Cons1)
  qed
qed

lemma mapE_Inr_nth:
  assumes "mapE f xs = Inr ys"
  shows "length ys = length xs \<and> (\<forall>i<length xs. f (xs ! i) = Inr (ys ! i))"
  using assms by (auto simp: mapE_Inr_iff list_all2_conv_all_nth)

lemma mapE_Inr_set:
  assumes "mapE f xs = Inr ys" and "y \<in> set ys"
  shows "\<exists>x\<in>set xs. f x = Inr y"
proof -
  obtain i where i: "i < length ys" "y = ys ! i"
    using assms(2) by (auto simp: in_set_conv_nth)
  have "length ys = length xs" and "f (xs ! i) = Inr (ys ! i)"
    using mapE_Inr_nth [OF assms(1)] i by auto
  then show ?thesis using i by (metis nth_mem)
qed


lemma mapE_Inl_from:
  assumes "mapE f xs = Inl e"
  shows "\<exists>x\<in>set xs. f x = Inl e"
  using assms
proof (induction xs)
  case Nil
  then show ?case by simp
next
  case (Cons x xs)
  then show ?case
    by (cases "f x"; cases "mapE f xs") auto
qed


lemma firstExtensions_Inl: "firstExtensions d = Inl e \<Longrightarrow> e = TypeError"
  by (auto simp: firstExtensions_def split: option.splits list.splits)



lemma formatExtension_Inl: "formatExtension ids ext = Inl e \<Longrightarrow> e = TypeError"
  by (auto simp: formatExtension_def iconUrlOf_def Let_def split: option.splits list.splits sum.splits)



lemma searchAttempt_fst:
  "fst (searchAttempt h q w) =
     (case axiosResult (snd (post h (searchRequest q))) of
          Inl e \<Rightarrow> Inl e
        | Inr d \<Rightarrow> (case firstExtensions d of
             Inl e \<Rightarrow> Inl e
           | Inr exts \<Rightarrow> mapE (formatExtension (map toLowerCase (installed h))) exts))"
  by (simp add: searchAttempt_def axiosPost_def Let_def split: sum.splits)



lemma searchAttempt_Inl: "fst (searchAttempt h q w) = Inl e \<Longrightarrow>
   e = TypeError \<or> axiosResult (snd (post h (searchRequest q))) = Inl e"
  by (auto simp: searchAttempt_fst split: sum.splits
           dest: firstExtensions_Inl mapE_Inl_from formatExtension_Inl)




subsection \<open>The example entry\<close>

lemma format_python_ext:
  "formatExtension (map toLowerCase [''ms-python.python'']) python_ext = Inr python_summary"
  by (simp add: formatExtension_def python_ext_def python_summary_def iconUrlOf_def defaultIcon_def
        tpl_def toLowerCase_def lowerChar_def char_of_def bit_Suc_0_iff)

lemma search_python:
  "fst (searchAttempt (linux_host 0 [] python_response [''ms-python.python'']) ''python'' w)
     = Inr [python_summary]"
proof -
  have "mapE (formatExtension (map toLowerCase [''ms-python.python''])) [python_ext]
          = Inr [python_summary]"
    by (simp only: mapE.simps format_python_ext sum.case)
  then show ?thesis
    by (simp add: searchAttempt_fst linux_host_def python_response_def axiosResult_def
          firstExtensions_def)
qed

subsection \<open>Installed status\<close>

text \<open>
  Claim C4: for every search result that is mapped to a summary, the candidate id is
  the publisher name, a dot and the extension name, and \<open>isInstalled\<close> is true exactly
  when the lower-cased candidate id is among the lower-cased installed ids; in a search
  these are the ids the host reports at the time of the call. With \<open>ms-python.python\<close>
  installed and the candidate id \<open>MS-Python.Python\<close>, \<open>isInstalled\<close> is true.
\<close>

theorem isInstalled_iff:
  "(formatExtension (map toLowerCase ids) ext = Inr s \<longrightarrow>
      (\<exists>pub. ext_publisher ext = Some pub \<and>
         extensionId s = tpl (pub_publisherName pub) @ ''.'' @ tpl (ext_extensionName ext)) \<and>
      isInstalled s = (toLowerCase (extensionId s) \<in> toLowerCase ` set ids)) \<and>
   (fst (searchAttempt h query w) = Inr fs \<longrightarrow>
      (\<forall>s\<in>set fs. isInstalled s = (toLowerCase (extensionId s) \<in> toLowerCase ` set (installed h))))"
proof -
  have one: "(\<exists>pub. ext_publisher ext = Some pub \<and>
         extensionId s = tpl (pub_publisherName pub) @ ''.'' @ tpl (ext_extensionName ext)) \<and>
      isInstalled s = (toLowerCase (extensionId s) \<in> toLowerCase ` set ids)"
    if "formatExtension (map toLowerCase ids) ext = Inr s" for ids ext s
    using that by (auto simp: formatExtension_def Let_def split: option.splits sum.splits)
  have all: "isInstalled s = (toLowerCase (extensionId s) \<in> toLowerCase ` set (installed h))"
    if ok: "fst (searchAttempt h query w) = Inr fs" and s: "s \<in> set fs" for s
  proof -
    obtain exts where "mapE (formatExtension (map toLowerCase (installed h))) exts = Inr fs"
      using ok by (auto simp: searchAttempt_fst split: sum.splits)
    from mapE_Inr_set [OF this s]
    obtain x where "formatExtension (map toLowerCase (installed h)) x = Inr s"
      by blast
    then show ?thesis using one by blast
  qed
  show ?thesis using one all by blast
qed

theorem isInstalled_iff_witness:
  "formatExtension (map toLowerCase [''ms-python.python'']) python_ext = Inr python_summary \<and>
   extensionId python_summary = ''MS-Python.Python'' \<and>
   toLowerCase ''MS-Python.Python'' \<in> toLowerCase ` set [''ms-python.python''] \<and>
   isInstalled python_summary \<and>
   fst (searchAttempt (linux_host 0 [] python_response [''ms-python.python'']) ''python'' empty_world)
     = Inr [python_summary]"
  using isInstalled_iff [of "[''ms-python.python'']" python_ext python_summary
          "linux_host 0 [] python_response [''ms-python.python'']" "''python''" empty_world
          "[python_summary]"]
        format_python_ext search_python [of empty_world]
  by (simp add: python_summary_def toLowerCase_def lowerChar_def char_of_def bit_Suc_0_iff)

subsection \<open>The icon\<close>





subsection \<open>One call, one page\<close>












subsection \<open>Messages to the webview\<close>



section \<open>Activation, retry and validation\<close>

lemma posix_paths [simp]:
  "posix_join [''/s'', ''.venv''] = ''/s/.venv''"
  "posix_join [''/s/.venv'', ''bin'', ''vsix-to-vscodium''] = ''/s/.venv/bin/vsix-to-vscodium''"
  "posix_join [''/s/.venv'', ''bin'', ''python''] = ''/s/.venv/bin/python''"
  by (simp_all add: posix_join_def)

text \<open>
  Claim C1 at a failing input. Python is missing while \<open>activate\<close> of extension.js
  runs and present afterwards. The setup fails after two commands, and the rejected
  promise stays in \<open>dependencySetupPromise\<close>: two later runs of the command spawn nothing,
  so no new setup is attempted, and each reports the old failure.
\<close>

theorem activate_caches_failed_setup:
  "(case activate late_python_host ''/s'' empty_world of
      (ext, w1) \<Rightarrow>
        dependencySetupPromise ext = Inl pythonNotFound \<and>
        procs w1 = [''python3 --version'', ''python --version''] \<and>
        (let w2 = installFromInput late_python_host ext [Some ''ms-python.python''] w1;
             w3 = installFromInput late_python_host ext [Some ''ms-python.python''] w2
         in procs w2 = procs w1 \<and> procs w3 = procs w1 \<and>
            ui w3 = ui w1 @ [ShowErrorMessage (''Could not run installer: '' @ pythonNotFound),
                             ShowErrorMessage (''Could not run installer: '' @ pythonNotFound)]))"
  by (simp add: activate_def ensureDependencies_def findPython_def execPromise_def setupFailed_def
       late_python_host_def empty_world_def getInstallerCommand_def Let_def exec_error_def
       installFromInput_def pythonNotFound_def)

text \<open>
  The earlier extension.js does start the setup again when the one started by
  \<open>activate_v0\<close> failed: on the same host the next run of its command provisions the
  environment and installs the extension.
\<close>

theorem installExtensionCommand_v0_retries:
  "(case activate_v0 late_python_host ''/s'' empty_world of
      (setup, w1) \<Rightarrow>
        setup = None \<and>
        procs w1 = [''python3 --version'', ''python --version''] \<and>
        (case installExtensionCommand_v0 late_python_host ''/s'' [Some ''ms-python.python''] setup w1 of
           (setup2, w2) \<Rightarrow>
             setup2 = Some (Inr ''/s/.venv/bin/vsix-to-vscodium'') \<and>
             procs w2 = procs w1 @
               [''python3 --version'', ''python3 -m venv /s/.venv'',
                dq @ ''/s/.venv/bin/python'' @ dq @ '' -m pip install vsix-to-vscodium'',
                dq @ ''/s/.venv/bin/vsix-to-vscodium'' @ dq @ '' ms-python.python'']))"
  by (simp add: activate_v0_def ensureDependencies_v0_def findPython_def execPromise_def setupFailed_def
       late_python_host_def empty_world_def getInstallerCommand_def getPythonCommand_def Let_def
       installExtensionCommand_v0_def validateInput_def matchesIdPattern_def idChar_def
       truthy_def tpl_def exec_error_def)

text \<open>
  The promise of that second setup has no handler that clears the variable: when it
  fails too, the failure stays, and the run after it spawns nothing.
\<close>

theorem installExtensionCommand_v0_second_failure:
  "(case activate_v0 (linux_host 1 [] NoResponse []) ''/s'' empty_world of
      (setup, w1) \<Rightarrow>
        setup = None \<and>
        (case installExtensionCommand_v0 (linux_host 1 [] NoResponse []) ''/s'' [Some ''ms-python.python''] setup w1 of
           (setup2, w2) \<Rightarrow>
             setup2 = Some (Inl pythonNotFound) \<and>
             procs w2 = procs w1 @ [''python3 --version'', ''python --version''] \<and>
             (case installExtensionCommand_v0 (linux_host 1 [] NoResponse []) ''/s'' [Some ''ms-python.python''] setup2 w2 of
                (setup3, w3) \<Rightarrow> setup3 = setup2 \<and> procs w3 = procs w2)))"
  by (simp add: activate_v0_def ensureDependencies_v0_def findPython_def execPromise_def setupFailed_def
       linux_host_def empty_world_def getInstallerCommand_def getPythonCommand_def Let_def
       installExtensionCommand_v0_def pythonNotFound_def exec_error_def)

text \<open>
  Claim C6 at a failing input. The command \<open>installFromInput\<close> of extension.js passes no
  \<open>validateInput\<close> to the input box: the identifier \<open>ms-python\<close>, which does not match
  the pattern, is handed to the installer.
\<close>

theorem installFromInput_accepts_invalid_id:
  "\<not> matchesIdPattern ''ms-python'' \<and>
   procs (installFromInput (linux_host 0 [] NoResponse [])
            \<lparr>dependencySetupPromise = Inr ''/s/.venv/bin/vsix-to-vscodium'',
             view_provider = closed_view\<rparr>
            [Some ''ms-python''] empty_world)
     = [dq @ ''/s/.venv/bin/vsix-to-vscodium'' @ dq @ '' ms-python'']"
  by (simp add: matchesIdPattern_def idChar_def installFromInput_def installExtension_def
        truthy_def tpl_def execPromise_def linux_host_def empty_world_def Let_def exec_error_def)

text \<open>
  The pattern of the earlier extension.js, \<open>/^[a-z0-9-]+\.[a-z0-9-]+$/i\<close>, matches
  exactly the texts made of a non-empty run of class characters, a dot and another
  non-empty run of class characters.
\<close>

theorem matchesIdPattern_iff:
  "matchesIdPattern s \<longleftrightarrow>
     (\<exists>a b. s = a @ ''.'' @ b \<and> a \<noteq> [] \<and> b \<noteq> [] \<and> list_all idChar a \<and> list_all idChar b)"
proof
  assume m: "matchesIdPattern s"
  let ?a = "takeWhile idChar s"
  obtain rest where r: "dropWhile idChar s = CHR ''.'' # rest" "rest \<noteq> []" "list_all idChar rest"
    and a: "?a \<noteq> []"
    using m by (auto simp: matchesIdPattern_def split: list.splits)
  have "s = ?a @ ''.'' @ rest"
    using takeWhile_dropWhile_id [of idChar s] r(1) by simp
  moreover have "list_all idChar ?a"
    by (simp add: list_all_iff) (meson set_takeWhileD)
  ultimately show "\<exists>a b. s = a @ ''.'' @ b \<and> a \<noteq> [] \<and> b \<noteq> [] \<and> list_all idChar a \<and> list_all idChar b"
    using a r by blast
next
  assume "\<exists>a b. s = a @ ''.'' @ b \<and> a \<noteq> [] \<and> b \<noteq> [] \<and> list_all idChar a \<and> list_all idChar b"
  then obtain a b where t: "s = a @ ''.'' @ b" and ab: "a \<noteq> []" "b \<noteq> []"
    "list_all idChar a" "list_all idChar b" by blast
  have nd: "\<not> idChar CHR ''.''" by (simp add: idChar_def)
  have "takeWhile idChar s = a" "dropWhile idChar s = ''.'' @ b"
    using t ab(3) nd by (simp_all add: list_all_iff takeWhile_append2 dropWhile_append2)
  then show "matchesIdPattern s"
    using ab by (simp add: matchesIdPattern_def)
qed

text \<open>The three identifiers of the specification.\<close>

theorem matchesIdPattern_examples:
  "matchesIdPattern ''ms-python.python'' \<and> \<not> matchesIdPattern ''ms-python'' \<and>
   \<not> matchesIdPattern ''ms_python.python''"
  by (simp add: matchesIdPattern_def idChar_def)

text \<open>Every text that matches the pattern is read by the shell as one word.\<close>

lemma matchesIdPattern_shSafe:
  assumes "matchesIdPattern s"
  shows "list_all shSafe s"
proof -
  obtain a b where s: "s = a @ ''.'' @ b" and ab: "list_all idChar a" "list_all idChar b"
    using assms matchesIdPattern_iff by blast
  have safe: "shSafe c" if "idChar c" for c
    using that by (auto simp: idChar_def shSafe_def Let_def)
  have "shSafe CHR ''.''" by (simp add: shSafe_def)
  then show ?thesis using s ab safe by (auto simp: list_all_iff)
qed

text \<open>
  With \<open>validateInput\<close>, as in the earlier extension.js, the input box only yields
  identifiers that match the pattern.
\<close>

theorem showInputBox_validated:
  assumes "showInputBox (Some validateInput) attempts = Some s"
  shows "matchesIdPattern s"
  using assms
proof (induction attempts)
  case Nil
  then show ?case by simp
next
  case (Cons a attempts)
  then show ?case
    by (cases a) (auto simp: validateInput_def split: if_splits)
qed

theorem showInputBox_validated_witness:
  "showInputBox (Some validateInput) [Some ''ms-python'', Some ''ms-python.python'']
     = Some ''ms-python.python'' \<and> matchesIdPattern ''ms-python.python''"
  using showInputBox_validated [of "[Some ''ms-python'', Some ''ms-python.python'']" "''ms-python.python''"]
  by (simp add: validateInput_def matchesIdPattern_def idChar_def)

end
